theory Spec2Isabelle
  imports Main
begin

section \<open>Python values, exceptions and configuration\<close>

text \<open>
  The development embeds \<^verbatim>\<open>src/pyrostat/collection.py\<close> (classes \<^verbatim>\<open>Bulk\<close> and
  \<^verbatim>\<open>Meta\<close>) function by function. Keyword arguments are association lists in call
  order (a Python \<^verbatim>\<open>dict\<close> has distinct keys and keeps insertion order); an exception is
  the \<open>Inl\<close> branch of a sum. A function body is read in the name space that the module's
  own \<^verbatim>\<open>import\<close> and \<^verbatim>\<open>class\<close> statements set up: a name they do not bind raises
  \<^verbatim>\<open>NameError\<close>, an attribute that neither the class nor the object holds raises
  \<^verbatim>\<open>AttributeError\<close>. The arguments and the attributes of the object are the inputs.
\<close>

datatype pyval = PNone | PInt int | PStr string

text \<open>
  The module raises \<^verbatim>\<open>pyroError(message)\<close> for every failure of its own (the older
  module \<^verbatim>\<open>src/collection.py\<close> calls the class \<^verbatim>\<open>EurobaseError\<close>); the other
  constructors are the built-in exceptions that escape from dictionary, list and pandas
  accesses. Where the source formats a value into the message with \<^verbatim>\<open>{}\<close>, the model keeps
  the fixed part of the message.
\<close>

datatype error =
    pyroError string
  | EurobaseError string
  | KeyError
  | IndexError
  | ValueError
  | AttributeError
  | NameError
  | TypeError

text \<open>
  Module \<^verbatim>\<open>settings\<close> is not among the sources: its constants are the fields of a record
  that every function takes as a parameter. \<open>BULK_BASE_NAMES\<close> is a dictionary in
  \<^verbatim>\<open>Meta\<close> (the source reads \<^verbatim>\<open>settings.BULK_BASE_NAMES['data']\<close> and calls
  \<^verbatim>\<open>members.keys()\<close>).
\<close>

record settings =
  LANGS :: "string list"
  DEF_SORT :: pyval
  BULK_BASE_NAMES :: "(string \<times> string) list"
  BULK_BASE_FILE :: string
  BULK_BASE_EXT :: string
  BULK_BASE_ZIP :: string
  BULK_TOC_FILE :: string
  BULK_TOC_EXTS :: "string list"
  BULK_TOC_ZIP :: string
  BULK_DIC_ZIP :: string

section \<open>The pandas operations the source calls\<close>

text \<open>
  A \<^verbatim>\<open>DataFrame\<close> is its column labels and its rows, every row holding one cell per
  column (\<open>wf_frame\<close>); the cells of the metabase and of the table of contents are strings.
\<close>

record dataframe =
  columns :: "string list"
  rows :: "string list list"

definition wf_frame :: "dataframe \<Rightarrow> bool" where
  "wf_frame df = list_all (\<lambda>r. length r = length (columns df)) (rows df)"

fun index_of :: "'a \<Rightarrow> 'a list \<Rightarrow> nat option" where
  "index_of x [] = None"
| "index_of x (y # ys) = (if x = y then Some 0 else map_option Suc (index_of x ys))"

text \<open>\<^verbatim>\<open>df[name]\<close>: the column as a list, \<^verbatim>\<open>KeyError\<close> when no column has that label.\<close>

definition getcol :: "dataframe \<Rightarrow> string \<Rightarrow> error + string list" where
  "getcol df name =
     (case index_of name (columns df) of
        None \<Rightarrow> Inl KeyError
      | Some i \<Rightarrow> Inr (map (\<lambda>r. r ! i) (rows df)))"

text \<open>\<^verbatim>\<open>Series.unique().tolist()\<close>: the distinct values in order of first appearance.\<close>

fun uniq :: "'a list \<Rightarrow> 'a list \<Rightarrow> 'a list" where
  "uniq seen [] = []"
| "uniq seen (x # xs) = (if x \<in> set seen then uniq seen xs else x # uniq (x # seen) xs)"

definition unique :: "'a list \<Rightarrow> 'a list" where
  "unique xs = uniq [] xs"

fun col_indices :: "string list \<Rightarrow> string list \<Rightarrow> nat list option" where
  "col_indices cols [] = Some []"
| "col_indices cols (k # ks) =
     (case index_of k cols of
        None \<Rightarrow> None
      | Some i \<Rightarrow> map_option ((#) i) (col_indices cols ks))"

text \<open>
  \<^verbatim>\<open>df.groupby(grpby).get_group(fltby)\<close>: the rows whose cells in the columns \<open>grpby\<close>
  are the values \<open>fltby\<close>, in table order. pandas raises \<^verbatim>\<open>ValueError\<close> when no key is
  passed, \<^verbatim>\<open>KeyError\<close> when a key is not a column, and \<^verbatim>\<open>KeyError\<close> when no row carries the
  combination (the group does not exist). With one key the source passes the bare label
  and the bare value, which selects the same rows.
\<close>

definition groupby_get_group ::
  "dataframe \<Rightarrow> string list \<Rightarrow> string list \<Rightarrow> error + dataframe" where
  "groupby_get_group df grpby fltby =
     (if grpby = [] then Inl ValueError
      else case col_indices (columns df) grpby of
        None \<Rightarrow> Inl KeyError
      | Some idx \<Rightarrow>
          (let sel = filter (\<lambda>r. map (\<lambda>i. r ! i) idx = fltby) (rows df)
           in if sel = [] then Inl KeyError else Inr (df\<lparr>rows := sel\<rparr>)))"

section \<open>The resolver: \<^verbatim>\<open>Meta.__get_member\<close>\<close>

text \<open>
  \<^verbatim>\<open>
  def __get_member(member, metabase, **kwargs):
      if metabase is None:
          raise pyroError('metabase data not found - load the file from Eurobase')
      members = settings.BULK_BASE_NAMES # ('data', 'dic', 'label')
      if member not in members:
          raise pyroError('member value not recognised - ...')
      elif set(kwargs.keys()).intersection([member]) != set(): # not empty
          raise pyroError('member value should not be passed as a keyword argument')
      grpby = list(set(kwargs.keys()).intersection(set(members)))
      if grpby != []:
          fltby = tuple([kwargs.get(k) for k in grpby]) # preserve the order
          if len(grpby) == 1:
              grpby, fltby = grpby[0], fltby[0]
          group = metabase.groupby(grpby).get_group(fltby)
      else:
          group = metabase
      return group[member].unique().tolist()
  \<close>
  The method is static: it reads its arguments only, never the session. The set
  intersection lists the recognised keys in an order Python does not fix; the model lists
  them in call order, and \<open>groupby_get_group_reorder\<close> below shows that the order does not
  change the group.
\<close>

definition get_member ::
  "settings \<Rightarrow> string \<Rightarrow> dataframe option \<Rightarrow> (string \<times> string) list \<Rightarrow> error + string list" where
  "get_member S member metabase kwargs =
     (case metabase of
        None \<Rightarrow> Inl (pyroError ''metabase data not found - load the file from Eurobase'')
      | Some mb \<Rightarrow>
          (let members = map fst (BULK_BASE_NAMES S) in
           if member \<notin> set members then Inl (pyroError ''member value not recognised'')
           else if member \<in> set (map fst kwargs) then
             Inl (pyroError ''member value should not be passed as a keyword argument'')
           else
             (let sel = filter (\<lambda>p. fst p \<in> set members) kwargs;
                  grpby = map fst sel;
                  fltby = map snd sel
              in case (if grpby \<noteq> [] then groupby_get_group mb grpby fltby else Inr mb) of
                   Inl e \<Rightarrow> Inl e
                 | Inr grp \<Rightarrow>
                     (case getcol grp member of
                        Inl e \<Rightarrow> Inl e
                      | Inr col \<Rightarrow> Inr (unique col)))))"

text \<open>The public queries of \<^verbatim>\<open>Meta\<close> are calls of the resolver on \<^verbatim>\<open>self.metabase\<close>.\<close>

definition getAllDatasets ::
  "settings \<Rightarrow> dataframe option \<Rightarrow> string option \<Rightarrow> error + string list" where
  "getAllDatasets S metabase dimension =
     (case dimension of
        None \<Rightarrow> get_member S ''data'' metabase []
      | Some d \<Rightarrow> get_member S ''data'' metabase [(''dic'', d)])"

definition getAllDimensions :: "settings \<Rightarrow> dataframe option \<Rightarrow> string \<Rightarrow> error + string list" where
  "getAllDimensions S metabase dataset = get_member S ''dic'' metabase [(''data'', dataset)]"

definition getAllLabels ::
  "settings \<Rightarrow> dataframe option \<Rightarrow> string \<Rightarrow> (string \<times> string) list \<Rightarrow> error + string list" where
  "getAllLabels S metabase dimension kwargs =
     (if ''dic'' \<in> set (map fst kwargs) then Inl TypeError
      else get_member S ''label'' metabase ((''dic'', dimension) # kwargs))"

section \<open>The URL builder: \<^verbatim>\<open>Bulk.update_url\<close>\<close>

text \<open>
  \<^verbatim>\<open>
  def update_url(domain, **kwargs):
      if kwargs == {}:
          return domain
      if 'lang' in kwargs:    lang = kwargs.pop('lang')
      else:                   lang = None
      if lang is not None and lang not in settings.LANGS:
          raise pyroError('language not supported')
      if 'sort' in kwargs:    sort = kwargs.pop('sort')
      else:                   sort = settings.DEF_SORT
      kwargs = OrderedDict(([('sort',sort)]+list(kwargs.items())))
      url = Session.build_url(domain, **kwargs)
      if lang is not None:
          url = "{url}/{lang}".format(url=url,lang=lang)
      return url
  \<close>
  \<open>pop\<close> takes the entry with that key out of the dictionary and leaves the others in
  their order.
\<close>

definition pop :: "string \<Rightarrow> (string \<times> pyval) list \<Rightarrow> (string \<times> pyval) list" where
  "pop k kwargs = filter (\<lambda>p. fst p \<noteq> k) kwargs"

definition lang_supported :: "settings \<Rightarrow> pyval \<Rightarrow> bool" where
  "lang_supported S lang = (case lang of PStr s \<Rightarrow> s \<in> set (LANGS S) | _ \<Rightarrow> False)"

text \<open>
  The statements from the first \<^verbatim>\<open>if 'lang' in kwargs\<close> to the assignment of the
  \<^verbatim>\<open>OrderedDict\<close>: the language taken out of the mapping, and the parameter list built
  for the serialiser.
\<close>

definition update_url_kwargs ::
  "settings \<Rightarrow> (string \<times> pyval) list \<Rightarrow> error + pyval \<times> (string \<times> pyval) list" where
  "update_url_kwargs S kwargs =
     (let lang = (case map_of kwargs ''lang'' of Some v \<Rightarrow> v | None \<Rightarrow> PNone);
          kwargs1 = pop ''lang'' kwargs
      in if lang \<noteq> PNone \<and> \<not> lang_supported S lang then
           Inl (pyroError ''language not supported'')
         else
           (let sort = (case map_of kwargs1 ''sort'' of Some v \<Rightarrow> v | None \<Rightarrow> DEF_SORT S);
                kwargs2 = pop ''sort'' kwargs1
            in Inr (lang, (''sort'', sort) # kwargs2)))"

text \<open>
  The module \<^verbatim>\<open>src/pyrostat/collection.py\<close> imports with \<^verbatim>\<open>from . import session\<close>: it
  binds the name \<^verbatim>\<open>session\<close> and never the name \<^verbatim>\<open>Session\<close>. The call
  \<^verbatim>\<open>Session.build_url(domain, **kwargs)\<close> therefore raises \<^verbatim>\<open>NameError\<close> when the name is
  evaluated, whatever the parameter list holds, and the two statements after it are not
  reached.
\<close>

definition update_url ::
  "settings \<Rightarrow> string \<Rightarrow> (string \<times> pyval) list \<Rightarrow> error + string" where
  "update_url S domain kwargs =
     (if kwargs = [] then Inr domain
      else case update_url_kwargs S kwargs of
             Inl e \<Rightarrow> Inl e
           | Inr (lang, kwargs') \<Rightarrow> Inl NameError)"


section \<open>Loading the metabase and the table of contents\<close>

text \<open>
  The session port. Module \<^verbatim>\<open>session\<close> is not among the sources: the calls the loaders
  make on \<^verbatim>\<open>self.session\<close> are the fields of a record. A read that raises is \<open>None\<close>; the
  source catches it with a bare \<^verbatim>\<open>except\<close>, so which exception it was does not matter.
\<close>

record session =
  read_url_table :: "string \<Rightarrow> dataframe option"
  read_html_table :: "string \<Rightarrow> dataframe list option"

text \<open>
  The attributes of a \<^verbatim>\<open>Meta\<close> object that the embedded methods read and write.
  \<^item> \<^verbatim>\<open>class Meta(__Base)\<close> defines neither \<^verbatim>\<open>update_url\<close> (a static method of \<^verbatim>\<open>Bulk\<close>)
    nor \<^verbatim>\<open>sort\<close> (a property of \<^verbatim>\<open>Bulk\<close>): \<open>self_update_url\<close> and \<open>self_sort\<close> are \<open>None\<close>
    unless the object itself holds an attribute of that name, and reading an absent one
    raises \<^verbatim>\<open>AttributeError\<close>.
  \<^item> \<open>self_metabase\<close> and \<open>self_toc\<close> are what \<^verbatim>\<open>self.metabase\<close> and \<^verbatim>\<open>self.toc\<close> give,
    \<open>None\<close> for Python's \<^verbatim>\<open>None\<close>. Inside the class, \<^verbatim>\<open>self.__metabase\<close> and \<^verbatim>\<open>self.__toc\<close>
    are the attributes \<^verbatim>\<open>_Meta__metabase\<close> and \<^verbatim>\<open>_Meta__toc\<close>, other attributes than
    those two: \<open>self__metabase\<close> and \<open>self__toc\<close>.
  \<^item> The dictionaries behind \<^verbatim>\<open>self.__dimension\<close> and \<^verbatim>\<open>self.__dataset\<close> are \<open>None\<close> while
    the attribute has not been assigned; a stored value is a list of codes or Python's
    \<^verbatim>\<open>None\<close>.
\<close>

record meta =
  self_url :: string
  self_lang :: string
  self_sort :: "pyval option"
  self_update_url :: "(string \<Rightarrow> (string \<times> pyval) list \<Rightarrow> error + string) option"
  self_metabase :: "dataframe option"
  self_toc :: "dataframe option"
  self__metabase :: "dataframe option"
  self__toc :: "dataframe option"
  self_dimension :: "(string \<times> string list option) list option"
  self_dataset :: "(string \<times> string list option) list option"

text \<open>
  \<^verbatim>\<open>self.update_url(self.url, sort=self.sort, file=f)\<close>, evaluated from left to right: the
  attribute \<^verbatim>\<open>update_url\<close>, then the arguments, then the call.
\<close>

definition call_update_url :: "meta \<Rightarrow> string \<Rightarrow> error + string" where
  "call_update_url self f =
     (case self_update_url self of
        None \<Rightarrow> Inl AttributeError
      | Some update \<Rightarrow>
          (case self_sort self of
             None \<Rightarrow> Inl AttributeError
           | Some sort' \<Rightarrow> update (self_url self) [(''sort'', sort'), (''file'', PStr f)]))"

text \<open>
  \<^verbatim>\<open>
  def setMetabase(self, **kwargs):
      self.__metabase = self.readMetabase(**kwargs)
  def readMetabase(self, **kwargs):
      basefile = '{base}.{ext}'.format(base=settings.BULK_BASE_FILE, ext=settings.BULK_BASE_EXT)
      if settings.BULK_BASE_ZIP != '':
          basefile = '{base}.{zip}'.format(base=basefile, zip=settings.BULK_BASE_ZIP)
      url = self.update_url(self.url, sort=self.sort, file=basefile)
      kwargs.update({'header': None, 'names': settings.BULK_BASE_NAMES})
      dcomp = {'gz': 'gzip', 'bz2': 'bz2', 'zip': 'zip'}
      kwargs.update({'compression': dcomp[settings.BULK_BASE_ZIP]})
      try:
          metabase = self.session.read_url_table(url, **kwargs)
      except:
          metabase = None
      return metabase
  \<close>
  The result \<open>Inr None\<close> is the method returning Python's \<^verbatim>\<open>None\<close>.
\<close>

definition readMetabase :: "settings \<Rightarrow> session \<Rightarrow> meta \<Rightarrow> error + dataframe option" where
  "readMetabase S P self =
     (let basefile = BULK_BASE_FILE S @ ''.'' @ BULK_BASE_EXT S;
          basefile = (if BULK_BASE_ZIP S \<noteq> [] then basefile @ ''.'' @ BULK_BASE_ZIP S
                      else basefile)
      in case call_update_url self basefile of
           Inl e \<Rightarrow> Inl e
         | Inr url \<Rightarrow>
             if BULK_BASE_ZIP S \<notin> set [''gz'', ''bz2'', ''zip''] then Inl KeyError
             else Inr (read_url_table P url))"

definition setMetabase :: "settings \<Rightarrow> session \<Rightarrow> meta \<Rightarrow> error + meta" where
  "setMetabase S P self =
     (case readMetabase S P self of
        Inl e \<Rightarrow> Inl e
      | Inr metabase \<Rightarrow> Inr (self\<lparr>self__metabase := metabase\<rparr>))"

text \<open>
  \<^verbatim>\<open>toc.drop(toc.columns[-1], axis=1, inplace=True)\<close>: the columns carrying the last
  column's label go; \<^verbatim>\<open>IndexError\<close> when the table has no column.
\<close>

definition drop_last_column :: "dataframe \<Rightarrow> error + dataframe" where
  "drop_last_column df =
     (if columns df = [] then Inl IndexError
      else
        (let name = last (columns df);
             keep = map (\<lambda>c. c \<noteq> name) (columns df)
         in Inr \<lparr>columns = filter (\<lambda>c. c \<noteq> name) (columns df),
                 rows = map (\<lambda>r. map snd (filter fst (zip keep r))) (rows df)\<rparr>))"

text \<open>
  \<^verbatim>\<open>
  def setTOC(self, **kwargs):
      self.__toc = self.readToc(**kwargs)
  def readToc(self, **kwargs):
      try:
          ext = kwargs.pop('ext')
      except:
          ext = settings.BULK_TOC_EXTS[0]
      else:
          if ext not in settings.BULK_TOC_EXTS:
              raise pyroError('bulk table of contents extension EXT not recognised')
      try:
          lang = kwargs.pop('lang')
      except:
          lang = self.lang
      else:
          if lang not in settings.LANGS:
              raise pyroError('language LANG not recognised')
      if ext == 'xml':
          tocfile = '{toc}.xml'.format(toc=settings.BULK_TOC_FILE)
      else:
          tocfile = '{toc}_{lang}.{ext}'.format(toc=settings.BULK_TOC_FILE, lang=lang, ext=ext)
      if settings.BULK_TOC_ZIP != '':
          tocfile = '{toc}.{zip}'.format(toc=tocfile, zip=settings.BULK_DIC_ZIP)
      url = self.update_url(self.url, sort=self.sort, file=tocfile)
      kwargs.update({'header': 0})
      try:
          if ext == 'xml':
              toc = self.session.read_html_table(url, **kwargs)
              toc = toc[0]
          else:
              toc = self.session.read_url_table(url, **kwargs)
      except:
          toc = None
      else:
          toc.drop(toc.columns[-1], axis=1, inplace=True) # toc.columns[-1] is 'values'
          toc.applymap(lambda x: x.strip())
      return toc
  \<close>
  The keywords \<^verbatim>\<open>ext\<close> and \<^verbatim>\<open>lang\<close> are options (\<open>None\<close>: not passed). The result of
  \<^verbatim>\<open>applymap\<close> is not kept, and on string cells it does not raise, so it has no image in
  the model.
\<close>

definition toc_ext :: "settings \<Rightarrow> string option \<Rightarrow> error + string" where
  "toc_ext S ext_kw =
     (case ext_kw of
        None \<Rightarrow> (case BULK_TOC_EXTS S of [] \<Rightarrow> Inl IndexError | e # _ \<Rightarrow> Inr e)
      | Some e \<Rightarrow>
          if e \<notin> set (BULK_TOC_EXTS S) then
            Inl (pyroError ''bulk table of contents extension EXT not recognised'')
          else Inr e)"

definition toc_lang :: "settings \<Rightarrow> meta \<Rightarrow> string option \<Rightarrow> error + string" where
  "toc_lang S self lang_kw =
     (case lang_kw of
        None \<Rightarrow> Inr (self_lang self)
      | Some l \<Rightarrow>
          if l \<notin> set (LANGS S) then Inl (pyroError ''language LANG not recognised'')
          else Inr l)"

definition tocfile :: "settings \<Rightarrow> string \<Rightarrow> string \<Rightarrow> string" where
  "tocfile S ext lang =
     (let f = (if ext = ''xml'' then BULK_TOC_FILE S @ ''.xml''
               else BULK_TOC_FILE S @ ''_'' @ lang @ ''.'' @ ext)
      in if BULK_TOC_ZIP S \<noteq> [] then f @ ''.'' @ BULK_DIC_ZIP S else f)"

definition fetch_toc :: "session \<Rightarrow> string \<Rightarrow> string \<Rightarrow> dataframe option" where
  "fetch_toc P ext url =
     (if ext = ''xml'' then
        (case read_html_table P url of
           None \<Rightarrow> None
         | Some [] \<Rightarrow> None
         | Some (t # _) \<Rightarrow> Some t)
      else read_url_table P url)"

definition readToc ::
  "settings \<Rightarrow> session \<Rightarrow> meta \<Rightarrow> string option \<Rightarrow> string option \<Rightarrow> error + dataframe option" where
  "readToc S P self ext_kw lang_kw =
     (case toc_ext S ext_kw of
        Inl e \<Rightarrow> Inl e
      | Inr ext \<Rightarrow>
          (case toc_lang S self lang_kw of
             Inl e \<Rightarrow> Inl e
           | Inr lang \<Rightarrow>
               (case call_update_url self (tocfile S ext lang) of
                  Inl e \<Rightarrow> Inl e
                | Inr url \<Rightarrow>
                    (case fetch_toc P ext url of
                       None \<Rightarrow> Inr None
                     | Some toc \<Rightarrow>
                         (case drop_last_column toc of
                            Inl e \<Rightarrow> Inl e
                          | Inr toc' \<Rightarrow> Inr (Some toc'))))))"

definition setTOC ::
  "settings \<Rightarrow> session \<Rightarrow> meta \<Rightarrow> string option \<Rightarrow> string option \<Rightarrow> error + meta" where
  "setTOC S P self ext_kw lang_kw =
     (case readToc S P self ext_kw lang_kw of
        Inl e \<Rightarrow> Inl e
      | Inr toc \<Rightarrow> Inr (self\<lparr>self__toc := toc\<rparr>))"

section \<open>Looking a dataset up in the table of contents\<close>

text \<open>
  \<^verbatim>\<open>
  def __get_content(member, toc, **kwargs):
      if toc is None:
          raise pyroError('table of contents not found - load the file from Eurobase')
      code = toc['code']
      if code[code.isin([member])].empty:
          raise pyroError('member not found in codelist of table of contents')
      return toc[code==member]
  def getTitle(self, dataset, **kwargs):
      res = self.__get_content(dataset, self.toc, **kwargs)
      ind = res.index.tolist()
      return res['title'][ind[0]].lstrip().rstrip()
  def getPeriod(self, dataset, **kwargs):
      res = self.__get_content(dataset, self.toc, **kwargs)
      ind = res.index.tolist()
      start = res['data start'][ind[0]]
      end = res['data end'][ind[0]]
      return [start, end]
  \<close>
  The index of a table read from a file numbers its rows, so \<^verbatim>\<open>ind[0]\<close> is the label of
  the first selected row and \<^verbatim>\<open>res[c][ind[0]]\<close> is that row's cell.
\<close>

definition get_content :: "string \<Rightarrow> dataframe option \<Rightarrow> error + dataframe" where
  "get_content member toc =
     (case toc of
        None \<Rightarrow> Inl (pyroError ''table of contents not found - load the file from Eurobase'')
      | Some t \<Rightarrow>
          (case index_of ''code'' (columns t) of
             None \<Rightarrow> Inl KeyError
           | Some i \<Rightarrow>
               if filter (\<lambda>r. r ! i = member) (rows t) = [] then
                 Inl (pyroError ''member not found in codelist of table of contents'')
               else Inr (t\<lparr>rows := filter (\<lambda>r. r ! i = member) (rows t)\<rparr>)))"

text \<open>
  \<^verbatim>\<open>str.lstrip\<close> and \<^verbatim>\<open>str.rstrip\<close> without argument remove the characters for which
  \<^verbatim>\<open>str.isspace\<close> holds; these are the ones among the first 256 code points.
\<close>

definition isspace :: "char \<Rightarrow> bool" where
  "isspace c =
     (c \<in> set [CHR 0x09, CHR 0x0A, CHR 0x0B, CHR 0x0C, CHR 0x0D, CHR 0x1C, CHR 0x1D,
               CHR 0x1E, CHR 0x1F, CHR 0x20, CHR 0x85, CHR 0xA0])"

definition lstrip :: "string \<Rightarrow> string" where
  "lstrip s = dropWhile isspace s"

definition rstrip :: "string \<Rightarrow> string" where
  "rstrip s = rev (dropWhile isspace (rev s))"

text \<open>\<^verbatim>\<open>res[name][ind[0]]\<close>: the cell of the first row in the column \<open>name\<close>.\<close>

definition first_cell :: "dataframe \<Rightarrow> string \<Rightarrow> error + string" where
  "first_cell res name =
     (case getcol res name of
        Inl e \<Rightarrow> Inl e
      | Inr col \<Rightarrow> (case col of [] \<Rightarrow> Inl IndexError | x # _ \<Rightarrow> Inr x))"

definition getTitle :: "meta \<Rightarrow> string \<Rightarrow> error + string" where
  "getTitle self dataset =
     (case get_content dataset (self_toc self) of
        Inl e \<Rightarrow> Inl e
      | Inr res \<Rightarrow>
          (case first_cell res ''title'' of
             Inl e \<Rightarrow> Inl e
           | Inr title \<Rightarrow> Inr (rstrip (lstrip title))))"

definition getPeriod :: "meta \<Rightarrow> string \<Rightarrow> error + string list" where
  "getPeriod self dataset =
     (case get_content dataset (self_toc self) of
        Inl e \<Rightarrow> Inl e
      | Inr res \<Rightarrow>
          (case first_cell res ''data start'' of
             Inl e \<Rightarrow> Inl e
           | Inr start \<Rightarrow>
               (case first_cell res ''data end'' of
                  Inl e \<Rightarrow> Inl e
                | Inr end' \<Rightarrow> Inr [start, end'])))"

section \<open>Indexing a \<^verbatim>\<open>Meta\<close> collection\<close>

text \<open>
  \<^verbatim>\<open>
  def dataset(self):
      if self.metabase is None:
          raise pyroError('no METABASE data found')
      dataset = settings.BULK_BASE_NAMES['data']
      return self.metabase[dataset].unique().tolist()
  def dimension(self):
      if self.metabase is None:
          raise pyroError('no METABASE data found')
      dimension = settings.BULK_BASE_NAMES['dic']
      return self.metabase[dimension].unique().tolist()
  def __getitem__(self, item):
      if not isinstance(item, str):
          raise pyroError('wrong type for ITEM parameter')
      if item in self.dimension:
          return self.__dimension[item]
      elif item in self.dataset:
          return self.__dataset[item]
  \<close>
  A method that ends without \<^verbatim>\<open>return\<close> gives \<^verbatim>\<open>None\<close>: the result \<open>Inr None\<close>.
\<close>

definition base_column :: "settings \<Rightarrow> meta \<Rightarrow> string \<Rightarrow> error + string list" where
  "base_column S self key =
     (case self_metabase self of
        None \<Rightarrow> Inl (pyroError ''no METABASE data found'')
      | Some mb \<Rightarrow>
          (case map_of (BULK_BASE_NAMES S) key of
             None \<Rightarrow> Inl KeyError
           | Some name \<Rightarrow>
               (case getcol mb name of
                  Inl e \<Rightarrow> Inl e
                | Inr col \<Rightarrow> Inr (unique col))))"

definition dataset :: "settings \<Rightarrow> meta \<Rightarrow> error + string list" where
  "dataset S self = base_column S self ''data''"

definition dimension :: "settings \<Rightarrow> meta \<Rightarrow> error + string list" where
  "dimension S self = base_column S self ''dic''"

text \<open>
  \<^verbatim>\<open>self.__dimension[item]\<close>: \<^verbatim>\<open>AttributeError\<close> while the attribute is not assigned,
  \<^verbatim>\<open>KeyError\<close> when the dictionary has no such key.
\<close>

definition stored ::
  "(string \<times> string list option) list option \<Rightarrow> string \<Rightarrow> error + string list option" where
  "stored d item =
     (case d of
        None \<Rightarrow> Inl AttributeError
      | Some kvs \<Rightarrow> (case map_of kvs item of None \<Rightarrow> Inl KeyError | Some v \<Rightarrow> Inr v))"

definition getitem :: "settings \<Rightarrow> meta \<Rightarrow> pyval \<Rightarrow> error + string list option" where
  "getitem S self item =
     (case item of
        PStr s \<Rightarrow>
          (case dimension S self of
             Inl e \<Rightarrow> Inl e
           | Inr dims \<Rightarrow>
               if s \<in> set dims then stored (self_dimension self) s
               else
                 (case dataset S self of
                    Inl e \<Rightarrow> Inl e
                  | Inr dss \<Rightarrow>
                      if s \<in> set dss then stored (self_dataset self) s
                      else Inr None))
      | _ \<Rightarrow> Inl (pyroError ''wrong type for ITEM parameter''))"

section \<open>The older module \<^verbatim>\<open>src/collection.py\<close>\<close>

text \<open>
  The class \<^verbatim>\<open>Collection\<close> of the older module lists the datasets of the metabase with
  \<^verbatim>\<open>
  def meta_datasets(self):
      if self.metabase is not None:
          raise EurobaseError('no METABASE data found')
      return self.metabase[settings.BULK_BASE_NAMES[0]].unique().tolist()
  \<close>
  where \<^verbatim>\<open>BULK_BASE_NAMES\<close> is a list. Subscripting \<^verbatim>\<open>None\<close> raises \<^verbatim>\<open>TypeError\<close>.
\<close>

definition meta_datasets :: "string list \<Rightarrow> dataframe option \<Rightarrow> error + string list" where
  "meta_datasets names metabase =
     (case metabase of
        Some mb \<Rightarrow> Inl (EurobaseError ''no METABASE data found'')
      | None \<Rightarrow> (case names of [] \<Rightarrow> Inl IndexError | name # _ \<Rightarrow> Inl TypeError))"

section \<open>Concrete inputs\<close>

text \<open>
  A configuration, a session whose reads raise, tables and an object on which the
  functions are evaluated below. The file names and the default sort value are those of the URLs quoted in the
  source's comments (\<^verbatim>\<open>BulkDownloadListing?sort=1&file=metabase.txt.gz\<close>,
  \<^verbatim>\<open>table_of_contents_en.txt\<close>, \<^verbatim>\<open>table_of_contents.xml\<close>). The object \<open>meta_example\<close>
  holds the attributes that the class \<^verbatim>\<open>Meta\<close> gives it: no \<^verbatim>\<open>update_url\<close> and no \<^verbatim>\<open>sort\<close>.
\<close>

definition settings_example :: settings where
  "settings_example =
     \<lparr>LANGS = [''en'', ''de'', ''fr''],
      DEF_SORT = PInt 1,
      BULK_BASE_NAMES = [(''data'', ''data''), (''dic'', ''dic''), (''label'', ''label'')],
      BULK_BASE_FILE = ''metabase'',
      BULK_BASE_EXT = ''txt'',
      BULK_BASE_ZIP = ''gz'',
      BULK_TOC_FILE = ''table_of_contents'',
      BULK_TOC_EXTS = [''txt'', ''xml''],
      BULK_TOC_ZIP = [],
      BULK_DIC_ZIP = []\<rparr>"

definition metabase_example :: dataframe where
  "metabase_example =
     \<lparr>columns = [''data'', ''dic'', ''label''],
      rows = [[''ds1'', ''dim1'', ''lbl1''],
              [''ds1'', ''dim2'', ''lbl2''],
              [''ds2'', ''dim1'', ''lbl3'']]\<rparr>"

definition metabase_empty :: dataframe where
  "metabase_empty = \<lparr>columns = [''data'', ''dic'', ''label''], rows = []\<rparr>"

definition toc_example :: dataframe where
  "toc_example =
     \<lparr>columns = [''title'', ''code'', ''type'', ''data start'', ''data end''],
      rows = [[''  Population on 1 January  '', ''demo_pjan'', ''dataset'', ''1960'', ''2016''],
              [''Population (copy)'', ''demo_pjan'', ''dataset'', ''1990'', ''2010''],
              [''GDP and main components'', ''nama_gdp_c'', ''dataset'', ''1975'', ''2015'']]\<rparr>"

definition session_failing :: session where
  "session_failing =
     \<lparr>read_url_table = (\<lambda>url. None),
      read_html_table = (\<lambda>url. None)\<rparr>"

definition meta_example :: meta where
  "meta_example =
     \<lparr>self_url = ''example.org'',
      self_lang = ''en'',
      self_sort = None,
      self_update_url = None,
      self_metabase = None,
      self_toc = None,
      self__metabase = None,
      self__toc = None,
      self_dimension = Some [],
      self_dataset = Some []\<rparr>"

section \<open>Facts about the table operations\<close>

lemma set_uniq: "set (uniq seen xs) = set xs - set seen"
  by (induction xs arbitrary: seen) auto

lemma distinct_uniq: "distinct (uniq seen xs)"
  by (induction xs arbitrary: seen) (auto simp: set_uniq)

lemma set_unique: "set (unique xs) = set xs"
  by (simp add: unique_def set_uniq)

lemma distinct_unique: "distinct (unique xs)"
  by (simp add: unique_def distinct_uniq)

lemma unique_Nil: "unique [] = []"
  by (simp add: unique_def)

lemma index_of_None: "index_of x xs = None \<longleftrightarrow> x \<notin> set xs"
  by (induction xs) auto

lemma index_of_Some: "index_of x xs = Some i \<Longrightarrow> i < length xs \<and> xs ! i = x"
  by (induction xs arbitrary: i) (auto split: if_splits)

lemma index_of_mem: "x \<in> set xs \<Longrightarrow> \<exists>i. index_of x xs = Some i"
  by (cases "index_of x xs") (auto simp: index_of_None)

section \<open>The resolver's scenario and its guard\<close>

text \<open>
  Claim C6. On the metabase with the rows (ds1, dim1, lbl1), (ds1, dim2, lbl2) and
  (ds2, dim1, lbl3), resolving the dataset column under the one constraint
  dimension = dim1 returns ds1 and ds2, and resolving the label column under the
  constraints dataset = ds1 and dimension = dim2 returns lbl2 alone. The names of the
  three columns come from \<^verbatim>\<open>settings.BULK_BASE_NAMES\<close>: \<open>d\<close>, \<open>m\<close> and \<open>l\<close> are any three
  different names the configuration gives to the dataset, dimension and label columns.
\<close>

theorem resolve_scenario:
  assumes "map fst (BULK_BASE_NAMES S) = [d, m, l]"
    and "d \<noteq> m" and "d \<noteq> l" and "m \<noteq> l"
  shows "get_member S d
           (Some \<lparr>columns = [d, m, l],
                  rows = [[''ds1'', ''dim1'', ''lbl1''],
                          [''ds1'', ''dim2'', ''lbl2''],
                          [''ds2'', ''dim1'', ''lbl3'']]\<rparr>)
           [(m, ''dim1'')] = Inr [''ds1'', ''ds2''] \<and>
         get_member S l
           (Some \<lparr>columns = [d, m, l],
                  rows = [[''ds1'', ''dim1'', ''lbl1''],
                          [''ds1'', ''dim2'', ''lbl2''],
                          [''ds2'', ''dim1'', ''lbl3'']]\<rparr>)
           [(d, ''ds1''), (m, ''dim2'')] = Inr [''lbl2'']"
  using assms
  by (simp add: get_member_def groupby_get_group_def getcol_def unique_def)

theorem resolve_scenario_witness:
  "map fst (BULK_BASE_NAMES (settings_example
      \<lparr>BULK_BASE_NAMES := [(''dataset'', ''dataset''), (''dimension'', ''dimension''),
                           (''label'', ''label'')]\<rparr>)) = [''dataset'', ''dimension'', ''label''] \<and>
   get_member (settings_example
      \<lparr>BULK_BASE_NAMES := [(''dataset'', ''dataset''), (''dimension'', ''dimension''),
                           (''label'', ''label'')]\<rparr>) ''dataset''
     (Some \<lparr>columns = [''dataset'', ''dimension'', ''label''],
            rows = [[''ds1'', ''dim1'', ''lbl1''],
                    [''ds1'', ''dim2'', ''lbl2''],
                    [''ds2'', ''dim1'', ''lbl3'']]\<rparr>)
     [(''dimension'', ''dim1'')] = Inr [''ds1'', ''ds2''] \<and>
   get_member (settings_example
      \<lparr>BULK_BASE_NAMES := [(''dataset'', ''dataset''), (''dimension'', ''dimension''),
                           (''label'', ''label'')]\<rparr>) ''label''
     (Some \<lparr>columns = [''dataset'', ''dimension'', ''label''],
            rows = [[''ds1'', ''dim1'', ''lbl1''],
                    [''ds1'', ''dim2'', ''lbl2''],
                    [''ds2'', ''dim1'', ''lbl3'']]\<rparr>)
     [(''dataset'', ''ds1''), (''dimension'', ''dim2'')] = Inr [''lbl2'']"
  using resolve_scenario
    [of "settings_example
      \<lparr>BULK_BASE_NAMES := [(''dataset'', ''dataset''), (''dimension'', ''dimension''),
                           (''label'', ''label'')]\<rparr>" "''dataset''" "''dimension''" "''label''"]
  by simp

text \<open>
  Claim C7. A resolver call on a loaded table whose keyword arguments hold the target
  column itself fails with the error "member value should not be passed as a keyword
  argument", whatever the table holds. The target is one of the recognised columns; an
  unrecognised one is refused before this check.
\<close>

theorem get_member_target_as_constraint:
  assumes "member \<in> set (map fst (BULK_BASE_NAMES S))"
    and "member \<in> set (map fst kwargs)"
  shows "get_member S member (Some mb) kwargs =
           Inl (pyroError ''member value should not be passed as a keyword argument'')"
  using assms by (simp add: get_member_def)

theorem get_member_target_as_constraint_witness:
  "''label'' \<in> set (map fst (BULK_BASE_NAMES settings_example)) \<and>
   ''label'' \<in> set (map fst [(''dic'', ''dim1''), (''label'', ''lbl1'')]) \<and>
   get_member settings_example ''label'' (Some metabase_example)
       [(''dic'', ''dim1''), (''label'', ''lbl1'')] =
     Inl (pyroError ''member value should not be passed as a keyword argument'')"
  using get_member_target_as_constraint
    [of "''label''" settings_example "[(''dic'', ''dim1''), (''label'', ''lbl1'')]" metabase_example]
  by (simp add: settings_example_def)

section \<open>Groups of rows\<close>

text \<open>
  The group selected by \<open>groupby_get_group\<close> depends on the set of (key, value) pairs
  only: listing the recognised keywords in another order selects the same rows and fails
  in the same cases.
\<close>

lemma col_indices_Some:
  "set ks \<subseteq> set cols \<Longrightarrow> col_indices cols ks = Some (map (\<lambda>k. the (index_of k cols)) ks)"
proof (induction ks)
  case Nil
  then show ?case by simp
next
  case (Cons k ks)
  then obtain i where "index_of k cols = Some i"
    using index_of_mem [of k cols] by auto
  with Cons show ?case by simp
qed

lemma col_indices_None: "\<not> set ks \<subseteq> set cols \<Longrightarrow> col_indices cols ks = None"
proof (induction ks)
  case Nil
  then show ?case by simp
next
  case (Cons k ks)
  show ?case
  proof (cases "index_of k cols")
    case None
    then show ?thesis by simp
  next
    case (Some i)
    then have "k \<in> set cols" using index_of_None [of k cols] by auto
    with Cons.prems have "\<not> set ks \<subseteq> set cols" by simp
    with Cons.IH Some show ?thesis by simp
  qed
qed

lemma groupby_get_group_error:
  "groupby_get_group df grpby fltby = Inl e \<Longrightarrow> e = KeyError \<or> e = ValueError"
  by (auto simp: groupby_get_group_def Let_def split: if_splits option.splits)

lemma getcol_error: "getcol df name = Inl e \<Longrightarrow> e = KeyError"
  by (auto simp: getcol_def split: option.splits)

lemma row_matches_iff:
  "map ((!) r) (map (\<lambda>k. the (index_of k cols)) (map fst ps)) = map snd ps \<longleftrightarrow>
     (\<forall>p \<in> set ps. r ! the (index_of (fst p) cols) = snd p)"
  by (induction ps) auto

lemma get_member_two_constraints_eq:
  assumes "member \<in> set (map fst (BULK_BASE_NAMES S))"
    and "a \<in> set (map fst (BULK_BASE_NAMES S))"
    and "b \<in> set (map fst (BULK_BASE_NAMES S))"
    and "a \<noteq> b" and "a \<noteq> member" and "b \<noteq> member"
    and "index_of member (columns mb) = Some t"
    and "index_of a (columns mb) = Some i"
    and "index_of b (columns mb) = Some j"
  shows "get_member S member (Some mb) [(a, x), (b, y)] =
           (if \<exists>r \<in> set (rows mb). r ! i = x \<and> r ! j = y
            then Inr (unique (map (\<lambda>r. r ! t)
                   (filter (\<lambda>r. r ! i = x \<and> r ! j = y) (rows mb))))
            else Inl KeyError)"
    using assms
    by (simp add: get_member_def groupby_get_group_def getcol_def filter_empty_conv)

lemma groupby_get_group_reorder:
  assumes "set ps = set qs"
  shows "groupby_get_group df (map fst ps) (map snd ps) =
         groupby_get_group df (map fst qs) (map snd qs)"
proof (cases "ps = []")
  case True
  with assms show ?thesis by simp
next
  case False
  with assms have ne: "map fst ps \<noteq> []" "map fst qs \<noteq> []" by auto
  have keys: "set (map fst ps) = set (map fst qs)" using assms by simp
  show ?thesis
  proof (cases "set (map fst ps) \<subseteq> set (columns df)")
    case True
    then have q: "set (map fst qs) \<subseteq> set (columns df)" using keys by simp
    have "filter (\<lambda>r. map ((!) r) (map (\<lambda>k. the (index_of k (columns df))) (map fst ps)) = map snd ps) (rows df)
        = filter (\<lambda>r. map ((!) r) (map (\<lambda>k. the (index_of k (columns df))) (map fst qs)) = map snd qs) (rows df)"
      unfolding row_matches_iff using assms by simp
    with True q ne show ?thesis
      unfolding groupby_get_group_def col_indices_Some [OF True] col_indices_Some [OF q]
      by (simp only: if_False option.case Let_def)
  next
    case False
    then have q: "\<not> set (map fst qs) \<subseteq> set (columns df)" using keys by simp
    from False q ne show ?thesis
      unfolding groupby_get_group_def col_indices_None [OF False] col_indices_None [OF q]
      by simp
  qed
qed

lemma get_member_loaded_error:
  "get_member S member (Some mb) kwargs \<noteq>
     Inl (pyroError ''metabase data not found - load the file from Eurobase'')"
proof
  assume h: "get_member S member (Some mb) kwargs =
     Inl (pyroError ''metabase data not found - load the file from Eurobase'')"
  define sel where "sel = filter (\<lambda>p. fst p \<in> set (map fst (BULK_BASE_NAMES S))) kwargs"
  define g where "g = (if map fst sel \<noteq> [] then groupby_get_group mb (map fst sel) (map snd sel)
            else Inr mb)"
  from h have m: "member \<in> set (map fst (BULK_BASE_NAMES S))" "member \<notin> set (map fst kwargs)"
    by (auto simp: get_member_def Let_def split: if_splits)
  have "get_member S member (Some mb) kwargs = (case g of Inl e \<Rightarrow> Inl e
      | Inr grp \<Rightarrow> (case getcol grp member of Inl e \<Rightarrow> Inl e | Inr col \<Rightarrow> Inr (unique col)))"
    unfolding get_member_def g_def sel_def Let_def using m by simp
  with h have r: "(case g of Inl e \<Rightarrow> Inl e
      | Inr grp \<Rightarrow> (case getcol grp member of Inl e \<Rightarrow> Inl e | Inr col \<Rightarrow> Inr (unique col))) =
     Inl (pyroError ''metabase data not found - load the file from Eurobase'')"
    by simp
  show False
  proof (cases g)
    case (Inl e)
    then have "e = KeyError \<or> e = ValueError"
      unfolding g_def using groupby_get_group_error by (auto split: if_splits)
    with r Inl show False by auto
  next
    case (Inr grp)
    with r show False
      by (cases "getcol grp member") (auto dest: getcol_error)
  qed
qed

lemma get_member_empty_table:
  assumes e: "rows mb = []" and m: "member \<in> set (map fst (BULK_BASE_NAMES S))"
      and k: "member \<notin> set (map fst kwargs)" and col: "member \<in> set (columns mb)"
  shows "get_member S member (Some mb) kwargs =
        (if \<exists>k \<in> set (map fst kwargs). k \<in> set (map fst (BULK_BASE_NAMES S))
         then Inl KeyError else Inr [])"
proof -
  obtain t where t: "index_of member (columns mb) = Some t"
    using col index_of_mem by fastforce
  define sel where "sel = filter (\<lambda>p. fst p \<in> set (map fst (BULK_BASE_NAMES S))) kwargs"
  have gm: "get_member S member (Some mb) kwargs = 
     (case (if map fst sel \<noteq> [] then groupby_get_group mb (map fst sel) (map snd sel) else Inr mb) of
        Inl e \<Rightarrow> Inl e
      | Inr grp \<Rightarrow> (case getcol grp member of Inl e \<Rightarrow> Inl e | Inr col \<Rightarrow> Inr (unique col)))"
    unfolding get_member_def sel_def Let_def using m k by simp
  show ?thesis
  proof (cases "sel = []")
    case True
    then have "\<not> (\<exists>k \<in> set (map fst kwargs). k \<in> set (map fst (BULK_BASE_NAMES S)))"
      unfolding sel_def by (auto simp: filter_empty_conv)
    with True e t show ?thesis
      unfolding gm by (simp add: getcol_def unique_def)
  next
    case False
    then have ex: "\<exists>k \<in> set (map fst kwargs). k \<in> set (map fst (BULK_BASE_NAMES S))"
      unfolding sel_def by (auto simp: filter_empty_conv)
    have "groupby_get_group mb (map fst sel) (map snd sel) = Inl KeyError"
      using False e by (simp add: groupby_get_group_def split: option.splits)
    with False ex show ?thesis
      unfolding gm by simp
  qed
qed

section \<open>The resolver's conjunction\<close>

text \<open>
  Claim C1, as the source has it. For a loaded metabase and a resolver query with two
  constraints \<open>a = x\<close> and \<open>b = y\<close> on recognised columns other than the target: when at
  least one row carries both values, the result is the list of the distinct target
  values of exactly the rows that carry both (never the union of the two single filters,
  never one filter alone); when no row carries the combination, pandas has no such group
  and the query raises \<^verbatim>\<open>KeyError\<close>. The claim's empty result for the absent combination
  is what the source does not do: \<open>get_member_absent_combination_counterexample\<close>.
\<close>

theorem get_member_two_constraints:
  assumes "wf_frame mb"
    and "member \<in> set (map fst (BULK_BASE_NAMES S))"
    and "a \<in> set (map fst (BULK_BASE_NAMES S))"
    and "b \<in> set (map fst (BULK_BASE_NAMES S))"
    and "a \<noteq> b" and "a \<noteq> member" and "b \<noteq> member"
    and "index_of member (columns mb) = Some t"
    and "index_of a (columns mb) = Some i"
    and "index_of b (columns mb) = Some j"
  shows "get_member S member (Some mb) [(a, x), (b, y)] =
           (if \<exists>r \<in> set (rows mb). r ! i = x \<and> r ! j = y
            then Inr (unique (map (\<lambda>r. r ! t)
                   (filter (\<lambda>r. r ! i = x \<and> r ! j = y) (rows mb))))
            else Inl KeyError) \<and>
         (\<forall>vs. get_member S member (Some mb) [(a, x), (b, y)] = Inr vs \<longrightarrow>
            distinct vs \<and>
            set vs = {r ! t | r. r \<in> set (rows mb) \<and> r ! i = x \<and> r ! j = y})"
proof -
  note eq = get_member_two_constraints_eq [OF assms(2-10), of x y]
  have "distinct vs \<and> set vs = {r ! t | r. r \<in> set (rows mb) \<and> r ! i = x \<and> r ! j = y}"
    if "get_member S member (Some mb) [(a, x), (b, y)] = Inr vs" for vs
  proof -
    from that eq have vs: "vs = unique (map (\<lambda>r. r ! t)
                   (filter (\<lambda>r. r ! i = x \<and> r ! j = y) (rows mb)))"
      by (simp split: if_splits)
    show ?thesis
      unfolding vs by (auto simp: set_unique distinct_unique)
  qed
  with eq show ?thesis by blast
qed

theorem get_member_two_constraints_witness:
  "wf_frame metabase_example \<and>
   index_of ''label'' (columns metabase_example) = Some 2 \<and>
   index_of ''data'' (columns metabase_example) = Some 0 \<and>
   index_of ''dic'' (columns metabase_example) = Some 1 \<and>
   get_member settings_example ''label'' (Some metabase_example)
     [(''data'', ''ds1''), (''dic'', ''dim2'')] = Inr [''lbl2'']"
proof -
  have h: "wf_frame metabase_example"
    "''label'' \<in> set (map fst (BULK_BASE_NAMES settings_example))"
    "''data'' \<in> set (map fst (BULK_BASE_NAMES settings_example))"
    "''dic'' \<in> set (map fst (BULK_BASE_NAMES settings_example))"
    "''data'' \<noteq> ''dic''" "''data'' \<noteq> ''label''" "''dic'' \<noteq> ''label''"
    "index_of ''label'' (columns metabase_example) = Some 2"
    "index_of ''data'' (columns metabase_example) = Some 0"
    "index_of ''dic'' (columns metabase_example) = Some 1"
    by (simp_all add: settings_example_def metabase_example_def wf_frame_def)
  have r: "rows metabase_example = [[''ds1'', ''dim1'', ''lbl1''],
              [''ds1'', ''dim2'', ''lbl2''],
              [''ds2'', ''dim1'', ''lbl3'']]"
    by (simp add: metabase_example_def)
  from get_member_two_constraints [OF h, of "''ds1''" "''dim2''"]
  have "get_member settings_example ''label'' (Some metabase_example)
     [(''data'', ''ds1''), (''dic'', ''dim2'')] = Inr [''lbl2'']"
    unfolding r by (simp add: unique_def)
  with h show ?thesis by simp
qed

theorem get_member_absent_combination_counterexample:
  "get_member settings_example ''label'' (Some metabase_example)
     [(''data'', ''ds2''), (''dic'', ''dim2'')] = Inl KeyError"
  by (simp add: get_member_def groupby_get_group_def settings_example_def metabase_example_def)

section \<open>Not loaded against loaded but empty\<close>

text \<open>
  Claim C3, as the source has it. A resolver query on a metabase that was never loaded
  fails with the error "metabase data not found - load the file from Eurobase"; the
  resolver is a static function of its arguments and has no session to load from. A
  query on a loaded table never fails with that error, so the two states stay apart. On
  a loaded table without rows, a query for a recognised column of the table returns the
  empty list when no keyword is a recognised column, and raises \<^verbatim>\<open>KeyError\<close> when one is
  (\<open>get_member_empty_table_counterexample\<close>): an empty table has no group.
\<close>

theorem get_member_not_loaded_vs_empty:
  "get_member S member None kwargs =
     Inl (pyroError ''metabase data not found - load the file from Eurobase'') \<and>
   get_member S member (Some mb) kwargs \<noteq>
     Inl (pyroError ''metabase data not found - load the file from Eurobase'') \<and>
   (rows mb = [] \<and> member \<in> set (map fst (BULK_BASE_NAMES S)) \<and>
    member \<notin> set (map fst kwargs) \<and> member \<in> set (columns mb) \<longrightarrow>
      get_member S member (Some mb) kwargs =
        (if \<exists>k \<in> set (map fst kwargs). k \<in> set (map fst (BULK_BASE_NAMES S))
         then Inl KeyError else Inr []))"
proof -
  have a: "get_member S member None kwargs =
     Inl (pyroError ''metabase data not found - load the file from Eurobase'')"
    by (simp add: get_member_def)
  from a get_member_loaded_error get_member_empty_table show ?thesis by blast
qed

theorem get_member_not_loaded_vs_empty_witness:
  "rows metabase_empty = [] \<and>
   ''label'' \<in> set (map fst (BULK_BASE_NAMES settings_example)) \<and>
   ''label'' \<notin> set (map fst ([] :: (string \<times> string) list)) \<and>
   ''label'' \<in> set (columns metabase_empty) \<and>
   get_member settings_example ''label'' None [] =
     Inl (pyroError ''metabase data not found - load the file from Eurobase'') \<and>
   get_member settings_example ''label'' (Some metabase_empty) [] = Inr []"
  using get_member_not_loaded_vs_empty [of settings_example "''label''" "[]" metabase_empty]
  by (simp add: settings_example_def metabase_empty_def)

theorem get_member_empty_table_counterexample:
  "get_member settings_example ''label'' (Some metabase_empty) [(''dic'', ''dim1'')] =
     Inl KeyError"
  by (simp add: get_member_def groupby_get_group_def settings_example_def metabase_empty_def)

section \<open>The parameter list of the URL builder\<close>

lemma map_of_pop: "k \<noteq> k' \<Longrightarrow> map_of (pop k' kwargs) k = map_of kwargs k"
  by (induction kwargs) (auto simp: pop_def)

lemma pop_pop:
  "pop ''sort'' (pop ''lang'' kwargs) =
     filter (\<lambda>p. fst p \<noteq> ''sort'' \<and> fst p \<noteq> ''lang'') kwargs"
  by (induction kwargs) (auto simp: pop_def)

text \<open>
  What the statements before the call of the serialiser compute: the sort value, taken
  from the mapping as it is or from the configuration, heads the list; the other
  parameters follow in the caller's order; the language is not among them.
\<close>

lemma update_url_kwargs_eq:
  "update_url_kwargs S kwargs =
     (if (case map_of kwargs ''lang'' of Some l \<Rightarrow> l | None \<Rightarrow> PNone) \<noteq> PNone \<and>
         \<not> lang_supported S (case map_of kwargs ''lang'' of Some l \<Rightarrow> l | None \<Rightarrow> PNone)
      then Inl (pyroError ''language not supported'')
      else Inr (case map_of kwargs ''lang'' of Some l \<Rightarrow> l | None \<Rightarrow> PNone,
                (''sort'', case map_of kwargs ''sort'' of Some v \<Rightarrow> v | None \<Rightarrow> DEF_SORT S) #
                filter (\<lambda>p. fst p \<noteq> ''sort'' \<and> fst p \<noteq> ''lang'') kwargs))"
  by (simp add: update_url_kwargs_def Let_def map_of_pop pop_pop)

lemma update_url_kwargs_sort_first:
  assumes "update_url_kwargs S kwargs = Inr (lang, params)"
  shows "params =
           (''sort'', case map_of kwargs ''sort'' of Some v \<Rightarrow> v | None \<Rightarrow> DEF_SORT S) #
           filter (\<lambda>p. fst p \<noteq> ''sort'' \<and> fst p \<noteq> ''lang'') kwargs"
    and "''lang'' \<notin> set (map fst params)"
    and "lang = (case map_of kwargs ''lang'' of Some l \<Rightarrow> l | None \<Rightarrow> PNone)"
proof -
  from assms show p: "params =
           (''sort'', case map_of kwargs ''sort'' of Some v \<Rightarrow> v | None \<Rightarrow> DEF_SORT S) #
           filter (\<lambda>p. fst p \<noteq> ''sort'' \<and> fst p \<noteq> ''lang'') kwargs"
    by (simp add: update_url_kwargs_eq split: if_splits)
  show "''lang'' \<notin> set (map fst params)"
    unfolding p by auto
  from assms show "lang = (case map_of kwargs ''lang'' of Some l \<Rightarrow> l | None \<Rightarrow> PNone)"
    by (simp add: update_url_kwargs_eq split: if_splits)
qed

text \<open>
  No call with a non-empty mapping returns a URL: it raises the language error, or
  \<^verbatim>\<open>NameError\<close> at the name \<^verbatim>\<open>Session\<close>.
\<close>

lemma update_url_nonempty:
  assumes "kwargs \<noteq> []"
  shows "update_url S domain kwargs =
           (if (case map_of kwargs ''lang'' of Some l \<Rightarrow> l | None \<Rightarrow> PNone) \<noteq> PNone \<and>
               \<not> lang_supported S (case map_of kwargs ''lang'' of Some l \<Rightarrow> l | None \<Rightarrow> PNone)
            then Inl (pyroError ''language not supported'')
            else Inl NameError)"
  using assms by (simp add: update_url_def update_url_kwargs_eq)

lemma update_url_no_url: "kwargs \<noteq> [] \<Longrightarrow> update_url S domain kwargs \<noteq> Inr url"
  by (simp add: update_url_nonempty)


text \<open>
  Claim C2. The call \<^verbatim>\<open>Bulk.update_url('example.org', dir='data', lang='en', start='a', sort=2)\<close>
  returns no URL and has no query string: the source builds the parameter list
  sort = 2, dir = data, start = a, with the sort value first, the other parameters in the
  caller's order and the language left out, and then raises \<^verbatim>\<open>NameError\<close> at the name
  \<^verbatim>\<open>Session\<close>, which the module does not bind.
\<close>

theorem update_url_sort_first_NameError:
  "update_url_kwargs settings_example
     [(''dir'', PStr ''data''), (''lang'', PStr ''en''), (''start'', PStr ''a''),
      (''sort'', PInt 2)] =
     Inr (PStr ''en'', [(''sort'', PInt 2), (''dir'', PStr ''data''), (''start'', PStr ''a'')]) \<and>
   update_url settings_example ''example.org''
     [(''dir'', PStr ''data''), (''lang'', PStr ''en''), (''start'', PStr ''a''),
      (''sort'', PInt 2)] = Inl NameError"
  by (simp add: update_url_def update_url_kwargs_def pop_def lang_supported_def
      settings_example_def)

text \<open>
  Claim C5. The call \<^verbatim>\<open>Bulk.update_url('example.org', lang='en', dir='data')\<close> does not
  produce the string \<^verbatim>\<open>example.org?sort=1&dir=data/en\<close>: the source takes the language
  \<^verbatim>\<open>en\<close> out of the mapping, puts the default sort value 1 before dir = data, and then
  raises \<^verbatim>\<open>NameError\<close> at the name \<^verbatim>\<open>Session\<close>.
\<close>

theorem update_url_scenario_NameError:
  "update_url_kwargs settings_example [(''lang'', PStr ''en''), (''dir'', PStr ''data'')] =
     Inr (PStr ''en'', [(''sort'', PInt 1), (''dir'', PStr ''data'')]) \<and>
   update_url settings_example ''example.org''
     [(''lang'', PStr ''en''), (''dir'', PStr ''data'')] = Inl NameError"
  by (simp add: update_url_def update_url_kwargs_def pop_def lang_supported_def
      settings_example_def)

section \<open>The sort value is not checked by the URL builder\<close>










section \<open>Loading through a \<^verbatim>\<open>Meta\<close> object\<close>

text \<open>
  A \<^verbatim>\<open>Meta\<close> object without an attribute \<^verbatim>\<open>update_url\<close> or \<^verbatim>\<open>sort\<close> of its own: both
  loaders raise \<^verbatim>\<open>AttributeError\<close> when they build the URL, before the session is called.
\<close>

lemma call_update_url_absent:
  "self_update_url self = None \<or> self_sort self = None \<Longrightarrow>
     call_update_url self f = Inl AttributeError"
  by (auto simp: call_update_url_def split: option.splits)

lemma readMetabase_absent:
  "self_update_url self = None \<or> self_sort self = None \<Longrightarrow>
     readMetabase S P self = Inl AttributeError"
  by (simp add: readMetabase_def Let_def call_update_url_absent)

lemma readToc_absent:
  assumes "self_update_url self = None \<or> self_sort self = None"
    and "toc_ext S ext_kw = Inr ext"
    and "toc_lang S self lang_kw = Inr lang"
  shows "readToc S P self ext_kw lang_kw = Inl AttributeError"
  using assms by (simp add: readToc_def call_update_url_absent)

text \<open>
  An object that holds the method of \<^verbatim>\<open>Bulk\<close> and a sort value: the loaders end at the
  name \<^verbatim>\<open>Session\<close>.
\<close>

lemma call_update_url_Bulk:
  assumes "self_update_url self = Some (update_url S)"
    and "self_sort self = Some srt"
  shows "call_update_url self f = Inl NameError"
  using assms by (simp add: call_update_url_def update_url_nonempty)

lemma readMetabase_Bulk:
  assumes "self_update_url self = Some (update_url S)"
    and "self_sort self = Some srt"
  shows "readMetabase S P self = Inl NameError"
  using assms by (simp add: readMetabase_def Let_def call_update_url_Bulk)

text \<open>
  An object whose \<^verbatim>\<open>update_url\<close> returns a URL, and a session whose reads raise: the bare
  \<^verbatim>\<open>except\<close> takes the exception and the loaders return \<^verbatim>\<open>None\<close>.
\<close>

lemma readMetabase_swallows:
  assumes "self_update_url self = Some update"
    and "self_sort self = Some srt"
    and "\<And>d kw. \<exists>url. update d kw = Inr url"
    and "BULK_BASE_ZIP S \<in> set [''gz'', ''bz2'', ''zip'']"
    and "\<And>url. read_url_table P url = None"
  shows "readMetabase S P self = Inr None"
proof -
  define f where
    "f = (if BULK_BASE_ZIP S \<noteq> []
          then (BULK_BASE_FILE S @ ''.'' @ BULK_BASE_EXT S) @ ''.'' @ BULK_BASE_ZIP S
          else BULK_BASE_FILE S @ ''.'' @ BULK_BASE_EXT S)"
  have r: "readMetabase S P self =
      (case call_update_url self f of
         Inl e \<Rightarrow> Inl e
       | Inr url \<Rightarrow>
           if BULK_BASE_ZIP S \<notin> set [''gz'', ''bz2'', ''zip''] then Inl KeyError
           else Inr (read_url_table P url))"
    unfolding readMetabase_def Let_def f_def by (rule refl)
  obtain url where "update (self_url self) [(''sort'', srt), (''file'', PStr f)] = Inr url"
    using assms(3) by blast
  then have "call_update_url self f = Inr url"
    using assms(1,2) by (simp add: call_update_url_def)
  then show ?thesis
    unfolding r using assms(4,5) by simp
qed

lemma fetch_toc_failing:
  assumes "\<And>url. read_url_table P url = None"
    and "\<And>url. read_html_table P url = None"
  shows "fetch_toc P ext url = None"
  using assms by (simp add: fetch_toc_def)

lemma readToc_swallows:
  assumes "self_update_url self = Some update"
    and "self_sort self = Some srt"
    and "\<And>d kw. \<exists>url. update d kw = Inr url"
    and "toc_ext S ext_kw = Inr ext"
    and "toc_lang S self lang_kw = Inr lang"
    and "\<And>url. read_url_table P url = None"
    and "\<And>url. read_html_table P url = None"
  shows "readToc S P self ext_kw lang_kw = Inr None"
proof -
  obtain url where
    "update (self_url self) [(''sort'', srt), (''file'', PStr (tocfile S ext lang))] = Inr url"
    using assms(3) by blast
  then have "call_update_url self (tocfile S ext lang) = Inr url"
    using assms(1,2) by (simp add: call_update_url_def)
  then show ?thesis
    using assms(4,5) fetch_toc_failing [OF assms(6,7)] by (simp add: readToc_def)
qed

text \<open>
  What the setters store does not reach \<^verbatim>\<open>self.metabase\<close> and \<^verbatim>\<open>self.toc\<close>, the attributes
  that the queries read.
\<close>

lemma setMetabase_keeps_metabase:
  "setMetabase S P self = Inr self' \<Longrightarrow>
     self_metabase self' = self_metabase self \<and> self__metabase self' = projr (readMetabase S P self)"
  by (auto simp: setMetabase_def split: sum.splits)

lemma setTOC_keeps_toc:
  "setTOC S P self ext_kw lang_kw = Inr self' \<Longrightarrow>
     self_toc self' = self_toc self \<and> self__toc self' = projr (readToc S P self ext_kw lang_kw)"
  by (auto simp: setTOC_def split: sum.splits)

text \<open>
  Claim C4. A load whose session read fails raises no error that names the URL.
  On a \<^verbatim>\<open>Meta\<close> object as the class builds it, \<^verbatim>\<open>readMetabase\<close> and \<^verbatim>\<open>readToc\<close> raise
  \<^verbatim>\<open>AttributeError\<close> before the session is called, because \<^verbatim>\<open>Meta\<close> has neither
  \<^verbatim>\<open>update_url\<close> nor \<^verbatim>\<open>sort\<close>. On an object that holds a sort value and an \<^verbatim>\<open>update_url\<close>
  returning a URL, the failure of the read is caught and both return \<^verbatim>\<open>None\<close> without
  raising.
\<close>

theorem load_failure_not_reported:
  "readMetabase settings_example session_failing meta_example = Inl AttributeError \<and>
   readToc settings_example session_failing meta_example None None = Inl AttributeError \<and>
   readMetabase settings_example session_failing
     (meta_example\<lparr>self_sort := Some (PInt 1),
                    self_update_url := Some (\<lambda>domain kwargs. Inr domain)\<rparr>) = Inr None \<and>
   readToc settings_example session_failing
     (meta_example\<lparr>self_sort := Some (PInt 1),
                    self_update_url := Some (\<lambda>domain kwargs. Inr domain)\<rparr>) None None = Inr None"
  by (simp add: readMetabase_def readToc_def call_update_url_def toc_ext_def toc_lang_def
      fetch_toc_def tocfile_def Let_def meta_example_def session_failing_def settings_example_def)

section \<open>The lookup in the table of contents\<close>

lemma find_filter: "find P xs = Some r \<Longrightarrow> \<exists>rest. filter P xs = r # rest"
  by (induction xs) (auto split: if_splits)

lemma find_None_filter: "find P xs = None \<longleftrightarrow> filter P xs = []"
  by (induction xs) auto

lemma strip_trimmed:
  "\<exists>pre suf. x = pre @ rstrip (lstrip x) @ suf \<and>
     (\<forall>c \<in> set pre. isspace c) \<and> (\<forall>c \<in> set suf. isspace c) \<and>
     (rstrip (lstrip x) \<noteq> [] \<longrightarrow>
        \<not> isspace (hd (rstrip (lstrip x))) \<and> \<not> isspace (last (rstrip (lstrip x))))"
proof -
  define y where "y = dropWhile isspace x"
  define z where "z = rev (dropWhile isspace (rev y))"
  define pre where "pre = takeWhile isspace x"
  define suf where "suf = rev (takeWhile isspace (rev y))"
  have x: "x = pre @ y" by (simp add: pre_def y_def)
  have "z @ suf = rev (takeWhile isspace (rev y) @ dropWhile isspace (rev y))"
    unfolding z_def suf_def by (simp only: rev_append)
  also have "\<dots> = y"
    by (simp only: takeWhile_dropWhile_id rev_rev_ident)
  finally have y: "y = z @ suf" by simp
  have p: "\<forall>c \<in> set pre. isspace c"
    unfolding pre_def by (auto dest: set_takeWhileD)
  have s: "\<forall>c \<in> set suf. isspace c"
    unfolding suf_def by (auto dest: set_takeWhileD)
  have e: "\<not> isspace (hd z) \<and> \<not> isspace (last z)" if nz: "z \<noteq> []"
  proof -
    from nz have "dropWhile isspace (rev y) \<noteq> []" by (simp add: z_def)
    then have "\<not> isspace (hd (dropWhile isspace (rev y)))" by (rule hd_dropWhile)
    with nz have l: "\<not> isspace (last z)" by (simp add: z_def last_rev)
    from nz y have "y \<noteq> []" by auto
    then have "\<not> isspace (hd y)" unfolding y_def by (rule hd_dropWhile)
    moreover from nz y have "hd y = hd z" by simp
    ultimately show ?thesis using l by simp
  qed
  have r: "rstrip (lstrip x) = z" by (simp add: rstrip_def lstrip_def z_def y_def)
  from x y p s e show ?thesis unfolding r by blast
qed

lemma get_content_first:
  assumes "index_of ''code'' (columns t) = Some c"
    and "find (\<lambda>r. r ! c = member) (rows t) = Some r"
  shows "\<exists>rest. get_content member (Some t) = Inr (t\<lparr>rows := r # rest\<rparr>)"
proof -
  from find_filter [OF assms(2)] obtain rest
    where "filter (\<lambda>r. r ! c = member) (rows t) = r # rest" by blast
  with assms(1) have "get_content member (Some t) = Inr (t\<lparr>rows := r # rest\<rparr>)"
    by (simp add: get_content_def)
  then show ?thesis by blast
qed

text \<open>
  Claim C9. On a loaded table of contents with the columns \<^verbatim>\<open>code\<close>, \<^verbatim>\<open>title\<close>,
  \<^verbatim>\<open>data start\<close> and \<^verbatim>\<open>data end\<close>: a code that no row carries makes \<^verbatim>\<open>getTitle\<close> and
  \<^verbatim>\<open>getPeriod\<close> fail with "member not found in codelist of table of contents"; for a code
  that is present, they return the title of the first row carrying it, stripped on both
  sides (\<open>strip_trimmed\<close> above: only white space is removed, and none is left at either
  end), and that row's start and end cells as they are stored.
\<close>

theorem toc_lookup:
  assumes "self_toc self = Some t" and "wf_frame t"
    and "index_of ''code'' (columns t) = Some c"
    and "index_of ''title'' (columns t) = Some ti"
    and "index_of ''data start'' (columns t) = Some s"
    and "index_of ''data end'' (columns t) = Some e"
  shows "(code \<notin> set (map (\<lambda>r. r ! c) (rows t)) \<longrightarrow>
            getTitle self code =
              Inl (pyroError ''member not found in codelist of table of contents'') \<and>
            getPeriod self code =
              Inl (pyroError ''member not found in codelist of table of contents'')) \<and>
         (\<forall>r. find (\<lambda>r. r ! c = code) (rows t) = Some r \<longrightarrow>
            getTitle self code = Inr (rstrip (lstrip (r ! ti))) \<and>
            getPeriod self code = Inr [r ! s, r ! e])"
proof -
  have a: "getTitle self code =
              Inl (pyroError ''member not found in codelist of table of contents'') \<and>
            getPeriod self code =
              Inl (pyroError ''member not found in codelist of table of contents'')"
    if "code \<notin> set (map (\<lambda>r. r ! c) (rows t))"
  proof -
    from that have "filter (\<lambda>r. r ! c = code) (rows t) = []"
      by (auto simp: filter_empty_conv)
    with assms(1,3) show ?thesis
      by (simp add: getTitle_def getPeriod_def get_content_def)
  qed
  have b: "getTitle self code = Inr (rstrip (lstrip (r ! ti))) \<and>
            getPeriod self code = Inr [r ! s, r ! e]"
    if "find (\<lambda>r. r ! c = code) (rows t) = Some r" for r
  proof -
    from get_content_first [OF assms(3) that] obtain rest
      where "get_content code (Some t) = Inr (t\<lparr>rows := r # rest\<rparr>)" by blast
    with assms(1,4,5,6) show ?thesis
      by (simp add: getTitle_def getPeriod_def first_cell_def getcol_def)
  qed
  from a b show ?thesis by blast
qed

theorem toc_lookup_witness:
  "getTitle (meta_example\<lparr>self_toc := Some toc_example\<rparr>) ''demo_pjan'' =
     Inr ''Population on 1 January'' \<and>
   getPeriod (meta_example\<lparr>self_toc := Some toc_example\<rparr>) ''demo_pjan'' =
     Inr [''1960'', ''2016''] \<and>
   getTitle (meta_example\<lparr>self_toc := Some toc_example\<rparr>) ''absent'' =
     Inl (pyroError ''member not found in codelist of table of contents'')"
proof -
  have h: "self_toc (meta_example\<lparr>self_toc := Some toc_example\<rparr>) = Some toc_example"
    "wf_frame toc_example"
    "index_of ''code'' (columns toc_example) = Some 1"
    "index_of ''title'' (columns toc_example) = Some 0"
    "index_of ''data start'' (columns toc_example) = Some 3"
    "index_of ''data end'' (columns toc_example) = Some 4"
    by (simp_all add: toc_example_def wf_frame_def)
  have f: "find (\<lambda>r. r ! 1 = ''demo_pjan'') (rows toc_example) =
      Some [''  Population on 1 January  '', ''demo_pjan'', ''dataset'', ''1960'', ''2016'']"
    "''absent'' \<notin> set (map (\<lambda>r. r ! 1) (rows toc_example))"
    by (simp_all add: toc_example_def)
  have s: "rstrip (lstrip ''  Population on 1 January  '') = ''Population on 1 January''"
    by (simp add: rstrip_def lstrip_def isspace_def)
  from toc_lookup [OF h, of "''demo_pjan''"] toc_lookup [OF h, of "''absent''"] f s
  show ?thesis by simp
qed

section \<open>Indexing with an unknown item\<close>

text \<open>
  Claim C10, as the source has it. When a metabase is loaded, so that \<^verbatim>\<open>self.dimension\<close>
  and \<^verbatim>\<open>self.dataset\<close> return their lists, a string that is in neither list makes
  \<^verbatim>\<open>__getitem__\<close> return \<^verbatim>\<open>None\<close>. An item that is not a string raises "wrong type for
  ITEM parameter", and a string raises too when no metabase is loaded: "no METABASE data
  found" (\<open>getitem_not_loaded_counterexample\<close>).
\<close>

theorem getitem_unknown_item:
  "(dimension S self = Inr dims \<and> dataset S self = Inr dss \<and>
    s \<notin> set dims \<and> s \<notin> set dss \<longrightarrow> getitem S self (PStr s) = Inr None) \<and>
   getitem S self (PInt n) = Inl (pyroError ''wrong type for ITEM parameter'') \<and>
   getitem S self PNone = Inl (pyroError ''wrong type for ITEM parameter'') \<and>
   (self_metabase self = None \<longrightarrow>
      getitem S self (PStr s) = Inl (pyroError ''no METABASE data found''))"
  by (simp add: getitem_def dimension_def base_column_def)

theorem getitem_unknown_item_witness:
  "dimension settings_example (meta_example\<lparr>self_metabase := Some metabase_example\<rparr>) =
     Inr [''dim1'', ''dim2''] \<and>
   dataset settings_example (meta_example\<lparr>self_metabase := Some metabase_example\<rparr>) =
     Inr [''ds1'', ''ds2''] \<and>
   getitem settings_example (meta_example\<lparr>self_metabase := Some metabase_example\<rparr>)
     (PStr ''geo'') = Inr None"
proof -
  have d: "dimension settings_example (meta_example\<lparr>self_metabase := Some metabase_example\<rparr>) =
     Inr [''dim1'', ''dim2'']"
    "dataset settings_example (meta_example\<lparr>self_metabase := Some metabase_example\<rparr>) =
     Inr [''ds1'', ''ds2'']"
    by (simp_all add: dimension_def dataset_def base_column_def getcol_def unique_def
        settings_example_def metabase_example_def)
  from getitem_unknown_item [of settings_example
      "meta_example\<lparr>self_metabase := Some metabase_example\<rparr>"
      "[''dim1'', ''dim2'']" "[''ds1'', ''ds2'']" "''geo''" 0] d
  show ?thesis by simp
qed

theorem getitem_not_loaded_counterexample:
  "getitem settings_example meta_example (PStr ''geo'') =
     Inl (pyroError ''no METABASE data found'')"
  by (simp add: getitem_def dimension_def base_column_def meta_example_def)

section \<open>The inverted test of the older module\<close>

text \<open>
  \<^verbatim>\<open>Collection.meta_datasets\<close> of \<^verbatim>\<open>src/collection.py\<close> tests \<^verbatim>\<open>is not None\<close> where
  \<^verbatim>\<open>Meta.dataset\<close> tests \<^verbatim>\<open>is None\<close>: it refuses a loaded metabase and subscripts a
  missing one.
\<close>

lemma meta_datasets_inverted:
  "meta_datasets names (Some mb) = Inl (EurobaseError ''no METABASE data found'') \<and>
   meta_datasets (name # names) None = Inl TypeError"
  by (simp add: meta_datasets_def)

end
